theory Spec2Isabelle
  imports Main
begin

section \<open>Events and the shared event queue\<close>

text \<open>
  The program is \<^verbatim>\<open>William-Morris-Local-LLM.py\<close>. Its classes become records, its
  methods become functions that take the object's state and return the new one, and the
  \<^verbatim>\<open>queue.Queue\<close> shared by all components is a list that every method touching it
  takes and returns.

  \<^verbatim>\<open>EventType\<close> is the enum of the source, in its order.
\<close>

datatype EventType =
  LLM_RESPONSE | DISPLAY_UPDATE | SHUTDOWN | KEYBOARDINPUT | BAR_UPDATE | BAR_FULL | INPUTSENT

text \<open>
  Python values that travel as event data or sit in \<^verbatim>\<open>LocalLLM.response\<close>: \<^verbatim>\<open>None\<close>,
  an int, a str, or the chat collaborator's response object, of which only
  \<^verbatim>\<open>.message.content\<close> is ever read.
\<close>

datatype pyval = PyNone | PyInt int | PyStr string | PyChatResponse string

text \<open>
  \<^verbatim>\<open>Event(event_type, data=None)\<close>. The \<^verbatim>\<open>timestamp\<close> field (\<^verbatim>\<open>time.time()\<close>) is
  never read by the program and is left out.
\<close>

datatype Event = Event (type: EventType) (data: pyval)

type_synonym queue = "Event list"

text \<open>
  \<^verbatim>\<open>Queue.put\<close> appends on the right, \<^verbatim>\<open>Queue.get(timeout)\<close> takes from the left and
  raises \<^verbatim>\<open>queue.Empty\<close> (here \<open>None\<close>) when nothing arrives, and
  \<^verbatim>\<open>queue.queue.clear()\<close> under the mutex empties the underlying deque.
\<close>

definition put :: "queue \<Rightarrow> Event \<Rightarrow> queue" where
  "put q e = q @ [e]"

definition get :: "queue \<Rightarrow> (Event \<times> queue) option" where
  "get q = (case q of [] \<Rightarrow> None | e # r \<Rightarrow> Some (e, r))"

definition clear :: "queue \<Rightarrow> queue" where
  "clear q = []"

section \<open>The rotary encoder\<close>

text \<open>
  \<^verbatim>\<open>RotaryEncoderClass\<close>. \<open>steps\<close> is \<^verbatim>\<open>self.encoder.steps\<close>, the counter the
  hardware collaborator advances; \<^verbatim>\<open>max_steps\<close> is never read. Python ints are
  unbounded, so the counters are \<open>int\<close>; \<^verbatim>\<open>%\<close> with the positive divisor 3 is
  \<open>mod\<close> on \<open>int\<close> (both give a result in 0..2 for a negative count).
\<close>

record RotaryEncoderClass =
  rot_is_running :: bool
  steps :: int
  rotation_count :: int
  loading_progress :: int
  rotations_met :: bool

definition CPR :: int where
  "CPR = 2048"

definition rotary_init :: RotaryEncoderClass where
  "rotary_init = \<lparr>rot_is_running = False, steps = 0, rotation_count = 0,
     loading_progress = - 1, rotations_met = False\<rparr>"

definition rotary_stop :: "RotaryEncoderClass \<Rightarrow> RotaryEncoderClass" where
  "rotary_stop r = r\<lparr>rot_is_running := False\<rparr>"

definition rotation_detected :: "RotaryEncoderClass \<Rightarrow> queue \<Rightarrow> RotaryEncoderClass \<times> queue" where
  "rotation_detected r q =
     (if rot_is_running r = True then
        if abs (steps r) \<ge> CPR then
          let r1 = (if steps r > 0 then r\<lparr>rotation_count := rotation_count r + 1\<rparr>
                    else r\<lparr>rotation_count := rotation_count r - 1\<rparr>);
              r2 = r1\<lparr>steps := 0\<rparr>
          in if rotation_count r2 mod 3 = 0 then
               let r3 = r2\<lparr>rotations_met := True\<rparr>;
                   r4 = r3\<lparr>loading_progress := loading_progress r3 + 1\<rparr>;
                   q1 = put q (Event BAR_UPDATE (PyInt (loading_progress r4)))
               in if loading_progress r4 \<ge> 6 then
                    let q2 = put q1 (Event BAR_FULL PyNone);
                        r5 = r4\<lparr>rotation_count := 0\<rparr>;
                        r6 = r5\<lparr>loading_progress := - 1\<rparr>
                    in (rotary_stop r6, q2)
                  else (r4, q1)
             else (r2\<lparr>rotations_met := False\<rparr>, q)
        else (r, q)
      else (r, q))"

text \<open>
  The hardware collaborator sets \<^verbatim>\<open>encoder.steps\<close> and the callback runs. A completed
  full turn is a callback that finds \<open>CPR\<close> counts on the encoder: \<open>+CPR\<close> clockwise,
  \<open>-CPR\<close> counterclockwise. \<open>turns\<close> feeds a list of such readings, oldest first.
\<close>

fun turn :: "int \<Rightarrow> RotaryEncoderClass \<times> queue \<Rightarrow> RotaryEncoderClass \<times> queue" where
  "turn n (r, q) = rotation_detected (r\<lparr>steps := n\<rparr>) q"

fun turns :: "int list \<Rightarrow> RotaryEncoderClass \<times> queue \<Rightarrow> RotaryEncoderClass \<times> queue" where
  "turns [] rq = rq"
| "turns (n # ns) rq = turns ns (turn n rq)"

text \<open>
  One iteration of the loop of \<^verbatim>\<open>RotaryEncoderClass.run\<close>: every 50 ms, while
  \<^verbatim>\<open>is_running\<close>, the callback is called on whatever the encoder reads by then.
\<close>

definition rotary_run :: "RotaryEncoderClass \<Rightarrow> queue \<Rightarrow> RotaryEncoderClass \<times> queue" where
  "rotary_run r q = (if rot_is_running r then rotation_detected r q else (r, q))"

text \<open>
  The dial as \<^verbatim>\<open>__init__\<close> leaves it, activated by the controller
  (\<^verbatim>\<open>self.rotary.is_running = True\<close> on \<^verbatim>\<open>INPUTSENT\<close>).
\<close>

abbreviation armed :: RotaryEncoderClass where
  "armed \<equiv> rotary_init\<lparr>rot_is_running := True\<rparr>"

section \<open>The display\<close>

text \<open>
  \<^verbatim>\<open>EpaperDisplay\<close>. Pixel drawing, text wrapping and the panel driver are the external
  display collaborator; of each drawing method the model keeps what it is asked to show,
  appended to \<open>panel\<close> in the order of the calls, and the fields of the object that the
  method writes. \<open>update_queue\<close> is the display's private \<^verbatim>\<open>queue.Queue\<close>, filled only by
  \<^verbatim>\<open>queue_update\<close>.
\<close>

datatype render =
  Loadingbar | Display_user_input string | Update_loading_bar int | Display_response string

record EpaperDisplay =
  disp_is_running :: bool
  update_queue :: "string list"
  disp_input_counter :: int
  disp_loading_progress :: int
  panel :: "render list"

definition num_bars :: int where
  "num_bars = 6"

definition display_init :: EpaperDisplay where
  "display_init = \<lparr>disp_is_running = True, update_queue = [], disp_input_counter = 0,
     disp_loading_progress = - 1, panel = []\<rparr>"

definition loadingbar :: "EpaperDisplay \<Rightarrow> EpaperDisplay" where
  "loadingbar d = d\<lparr>panel := panel d @ [Loadingbar]\<rparr>"

definition display_user_input :: "string \<Rightarrow> EpaperDisplay \<Rightarrow> EpaperDisplay" where
  "display_user_input current_input d = d\<lparr>panel := panel d @ [Display_user_input current_input]\<rparr>"

definition prtext :: "string \<Rightarrow> EpaperDisplay \<Rightarrow> EpaperDisplay" where
  "prtext current_input d = (display_user_input current_input d)\<lparr>disp_input_counter := 0\<rparr>"

definition display_response :: "string \<Rightarrow> EpaperDisplay \<Rightarrow> EpaperDisplay" where
  "display_response response d = d\<lparr>panel := panel d @ [Display_response response]\<rparr>"

definition update_loading_bar :: "int \<Rightarrow> EpaperDisplay \<Rightarrow> EpaperDisplay" where
  "update_loading_bar progress d =
     (if progress < num_bars then
        let d1 = d\<lparr>panel := panel d @ [Update_loading_bar progress]\<rparr>
        in d1\<lparr>disp_loading_progress := disp_loading_progress d1 + 1\<rparr>
      else d)"

definition queue_update :: "string \<Rightarrow> EpaperDisplay \<Rightarrow> EpaperDisplay" where
  "queue_update t d = d\<lparr>update_queue := update_queue d @ [t]\<rparr>"

definition display_stop :: "EpaperDisplay \<Rightarrow> EpaperDisplay" where
  "display_stop d = d\<lparr>disp_is_running := False\<rparr>"

section \<open>The language-model worker\<close>

text \<open>
  A key event of the key-capture collaborator is a \<^verbatim>\<open>KeyCode\<close>, whose \<^verbatim>\<open>char\<close> is a
  string or \<^verbatim>\<open>None\<close>, or a member of the \<^verbatim>\<open>Key\<close> enum, which has no \<^verbatim>\<open>char\<close>
  attribute (reading it raises \<^verbatim>\<open>AttributeError\<close>, which \<^verbatim>\<open>on_press\<close> catches).
  \<open>Key_other\<close> stands for every enum member that \<^verbatim>\<open>on_press\<close> does not name.
\<close>

datatype key = KeyCode "string option" | Key_space | Key_backspace | Key_enter | Key_other

datatype role = system | user | assistant

type_synonym message = "role \<times> string"

datatype exn = AttributeError string | Exception string

text \<open>The text of Python's \<^verbatim>\<open>AttributeError\<close> for a missing attribute.\<close>

definition no_attribute :: "string \<Rightarrow> string \<Rightarrow> exn" where
  "no_attribute cls attr =
     AttributeError ([CHR 0x27] @ cls @ [CHR 0x27] @ '' object has no attribute '' @ [CHR 0x27] @ attr @ [CHR 0x27])"

definition str_exn :: "exn \<Rightarrow> string" where
  "str_exn e = (case e of AttributeError m \<Rightarrow> m | Exception m \<Rightarrow> m)"

text \<open>
  \<^verbatim>\<open>LocalLLM\<close>. \<open>response\<close> is \<open>None\<close> until \<^verbatim>\<open>run\<close> first assigns the attribute
  (\<^verbatim>\<open>__init__\<close> does not create it). \<^verbatim>\<open>prompt_queue\<close> is never written to, so the
  \<^verbatim>\<open>task_done\<close> guarded by \<^verbatim>\<open>not self.prompt_queue.empty()\<close> never runs; it is left out.
\<close>

record LocalLLM =
  llm_is_running :: bool
  key_count :: int
  input_counter :: int
  input_ready :: bool
  llm_output_ready :: bool
  user_input :: string
  messages :: "message list"
  response :: "pyval option"

definition system_prompt :: message where
  "system_prompt = (system,
     ''You are William Morris. Speak as he would. Embody his anarchist philosophies, values, and views on craft, labour, culture, and society. '' @
     ''Your entire response must always be under 80 words. This is an absolute limit, never exceed it!!!'' @
     ''Generate a response relevant to the prompt within the context of AI and craft.'' @
     ''Avoid saying anything that is not historically accurate'' @
     ''You must end the response with one single specific question relevant to the user input that will encourage deep discussion on the effect of AI on craft, labor, society, art, sustainability, or creativity. This is an absolute limit of one question per response; do not exceed it!'')"

definition llm_init :: LocalLLM where
  "llm_init = \<lparr>llm_is_running = True, key_count = 2, input_counter = 0, input_ready = False,
     llm_output_ready = False, user_input = [], messages = [system_prompt], response = None\<rparr>"

definition llm_stop :: "LocalLLM \<Rightarrow> LocalLLM" where
  "llm_stop l = l\<lparr>llm_is_running := False\<rparr>"

text \<open>
  \<^verbatim>\<open>on_press\<close>: the \<^verbatim>\<open>try\<close> block handles a \<^verbatim>\<open>KeyCode\<close> (a \<^verbatim>\<open>char\<close> that is
  \<^verbatim>\<open>None\<close> or empty is falsy and does nothing), the \<^verbatim>\<open>except AttributeError\<close> block the
  enum members; the test of \<^verbatim>\<open>key_count\<close> follows in every case. \<^verbatim>\<open>user_input[:-1]\<close> is
  \<open>butlast\<close>, which like the slice maps the empty string to itself.
\<close>

definition on_press :: "key \<Rightarrow> LocalLLM \<Rightarrow> queue \<Rightarrow> LocalLLM \<times> queue" where
  "on_press k l q =
     (let (l1, q1) =
        (case k of
           KeyCode c \<Rightarrow>
             (case c of
                None \<Rightarrow> (l, q)
              | Some s \<Rightarrow>
                  if s \<noteq> [] then
                    let la = l\<lparr>user_input := user_input l @ s\<rparr>
                    in (la\<lparr>key_count := key_count la + 1\<rparr>, q)
                  else (l, q))
         | Key_space \<Rightarrow>
             (let la = l\<lparr>user_input := user_input l @ '' ''\<rparr>
              in (la\<lparr>key_count := key_count la + 1\<rparr>, q))
         | Key_backspace \<Rightarrow>
             (let la = l\<lparr>user_input := butlast (user_input l)\<rparr>
              in (la\<lparr>key_count := key_count la + 1\<rparr>, q))
         | Key_enter \<Rightarrow>
             (let qa = clear q;
                  la = l\<lparr>key_count := 0\<rparr>;
                  qb = put qa (Event INPUTSENT PyNone)
              in (la\<lparr>input_ready := True\<rparr>, qb))
         | Key_other \<Rightarrow> (l, q))
      in if key_count l1 \<ge> 3 then
           let q2 = put q1 (Event KEYBOARDINPUT PyNone);
               l2 = l1\<lparr>input_counter := input_counter l1 + 1\<rparr>
           in (l2\<lparr>key_count := 0\<rparr>, q2)
         else (l1, q1))"

text \<open>The key-capture collaborator delivers the keys pressed, oldest first.\<close>

fun capture :: "key list \<Rightarrow> LocalLLM \<times> queue \<Rightarrow> LocalLLM \<times> queue" where
  "capture [] lq = lq"
| "capture (k # ks) (l, q) = capture ks (on_press k l q)"

text \<open>
  The collaborators of one worker cycle: \<open>chat\<close> is the model call on the conversation,
  returning the content of the response's message (\<open>Inr\<close>) or raising an exception whose
  text is given (\<open>Inl\<close>); \<open>log_error\<close> is the text of the exception raised by opening or
  writing the chat log, if one is.
\<close>

record env =
  chat :: "message list \<Rightarrow> string + string"
  log_error :: "string option"

definition get_llm_response :: "env \<Rightarrow> LocalLLM \<Rightarrow> pyval \<times> LocalLLM" where
  "get_llm_response ev l =
     (case chat ev (messages l) of
        Inr c \<Rightarrow> (PyChatResponse c, l\<lparr>llm_output_ready := True\<rparr>)
      | Inl e \<Rightarrow> (PyStr (''Error: '' @ str_exn (Exception e)), l))"

text \<open>
  The attribute chain \<^verbatim>\<open>.message.content\<close> on a Python value: only the chat response
  object has a \<^verbatim>\<open>message\<close>.
\<close>

definition message_content :: "pyval \<Rightarrow> exn + string" where
  "message_content v =
     (case v of
        PyChatResponse c \<Rightarrow> Inr c
      | PyStr s \<Rightarrow> Inl (no_attribute ''str'' ''message'')
      | PyInt i \<Rightarrow> Inl (no_attribute ''int'' ''message'')
      | PyNone \<Rightarrow> Inl (no_attribute ''NoneType'' ''message''))"

text \<open>
  The body of one iteration of \<^verbatim>\<open>LocalLLM.run\<close> once the wait for \<^verbatim>\<open>input_ready\<close> is
  over (the lines after \<^verbatim>\<open>listener.stop()\<close>). An exception raised before the end of
  the \<^verbatim>\<open>try\<close> block leaves the later statements undone and runs the handler, which puts
  an \<^verbatim>\<open>LLM_RESPONSE\<close> event carrying \<^verbatim>\<open>f"Error: {str(e)}"\<close>.
\<close>

definition run_body :: "env \<Rightarrow> LocalLLM \<Rightarrow> queue \<Rightarrow> LocalLLM \<times> queue" where
  "run_body ev l q =
     (let l1 = l\<lparr>messages := messages l @ [(user, user_input l)]\<rparr>;
          (r, l2) = get_llm_response ev l1;
          l3 = l2\<lparr>response := Some r\<rparr>
      in case message_content r of
           Inl e \<Rightarrow> (l3, put q (Event LLM_RESPONSE (PyStr (''Error: '' @ str_exn e))))
         | Inr c \<Rightarrow>
             (case log_error ev of
                Some m \<Rightarrow> (l3, put q (Event LLM_RESPONSE (PyStr (''Error: '' @ str_exn (Exception m)))))
              | None \<Rightarrow>
                  let l4 = l3\<lparr>messages := messages l3 @ [(assistant, c)]\<rparr>;
                      l5 = l4\<lparr>llm_output_ready := True\<rparr>;
                      q1 = put q (Event LLM_RESPONSE r);
                      l6 = l5\<lparr>user_input := []\<rparr>
                  in (l6\<lparr>input_ready := False\<rparr>, q1)))"

text \<open>
  The keystrokes that \<^verbatim>\<open>on_press\<close> counts: the three branches that add one to
  \<^verbatim>\<open>key_count\<close>.
\<close>

definition accepted :: "key \<Rightarrow> bool" where
  "accepted k =
     (case k of
        KeyCode c \<Rightarrow> (case c of None \<Rightarrow> False | Some s \<Rightarrow> s \<noteq> [])
      | Key_space \<Rightarrow> True
      | Key_backspace \<Rightarrow> True
      | Key_enter \<Rightarrow> False
      | Key_other \<Rightarrow> False)"

section \<open>The controller\<close>

text \<open>
  \<^verbatim>\<open>DeviceController\<close> owns the event queue and the three components. Its fields
  \<^verbatim>\<open>current_prompt\<close>, \<^verbatim>\<open>user_input\<close>, \<^verbatim>\<open>current_response\<close> and \<^verbatim>\<open>loading_progress\<close>
  are never read or written after \<^verbatim>\<open>__init__\<close> and are left out.
\<close>

record DeviceController =
  event_queue :: queue
  rotary :: RotaryEncoderClass
  display :: EpaperDisplay
  llm :: LocalLLM
  is_running :: bool
  loading_bar_full :: bool

definition controller_init :: DeviceController where
  "controller_init = \<lparr>event_queue = [], rotary = rotary_init, display = display_init,
     llm = llm_init, is_running = True, loading_bar_full = False\<rparr>"

definition shutdown :: "DeviceController \<Rightarrow> DeviceController" where
  "shutdown c =
     (let c1 = c\<lparr>is_running := False\<rparr>;
          c2 = c1\<lparr>display := display_stop (display c1)\<rparr>;
          c3 = c2\<lparr>rotary := rotary_stop (rotary c2)\<rparr>
      in c3\<lparr>llm := llm_stop (llm c3)\<rparr>)"

text \<open>
  \<^verbatim>\<open>self.llm.response.message.content\<close>: the attribute \<^verbatim>\<open>response\<close> may not exist yet.
\<close>

definition response_message_content :: "LocalLLM \<Rightarrow> exn + string" where
  "response_message_content l =
     (case response l of
        None \<Rightarrow> Inl (no_attribute ''LocalLLM'' ''response'')
      | Some v \<Rightarrow> message_content v)"

text \<open>
  \<^verbatim>\<open>check_display_response\<close>. The argument of \<^verbatim>\<open>display_response\<close> is evaluated before
  the call; if that raises, nothing is displayed and the exception leaves
  \<^verbatim>\<open>handle_event\<close> and \<^verbatim>\<open>process_events\<close>, whose handlers catch only
  \<^verbatim>\<open>queue.Empty\<close> and \<^verbatim>\<open>KeyboardInterrupt\<close>.
\<close>

definition check_display_response :: "DeviceController \<Rightarrow> exn + DeviceController" where
  "check_display_response c =
     (if llm_output_ready (llm c) \<and> loading_bar_full c then
        case response_message_content (llm c) of
          Inl e \<Rightarrow> Inl e
        | Inr t \<Rightarrow>
            let c1 = c\<lparr>display := display_response t (display c)\<rparr>;
                c2 = c1\<lparr>llm := (llm c1)\<lparr>llm_output_ready := False\<rparr>\<rparr>
            in Inr (c2\<lparr>loading_bar_full := False\<rparr>)
      else Inr c)"

definition handle_event :: "Event \<Rightarrow> DeviceController \<Rightarrow> exn + DeviceController" where
  "handle_event event c =
     (case type event of
        SHUTDOWN \<Rightarrow> Inr (shutdown c)
      | KEYBOARDINPUT \<Rightarrow> Inr (c\<lparr>display := prtext (user_input (llm c)) (display c)\<rparr>)
      | INPUTSENT \<Rightarrow>
          (let c1 = c\<lparr>display := loadingbar (display c)\<rparr>;
               c2 = c1\<lparr>display := display_user_input (user_input (llm c1)) (display c1)\<rparr>
           in Inr (c2\<lparr>rotary := (rotary c2)\<lparr>rot_is_running := True\<rparr>\<rparr>))
      | BAR_UPDATE \<Rightarrow>
          Inr (c\<lparr>display := update_loading_bar (loading_progress (rotary c)) (display c)\<rparr>)
      | BAR_FULL \<Rightarrow> check_display_response (c\<lparr>loading_bar_full := True\<rparr>)
      | LLM_RESPONSE \<Rightarrow> check_display_response c
      | DISPLAY_UPDATE \<Rightarrow> Inr c)"

text \<open>
  \<^verbatim>\<open>process_events\<close>: the loop runs while \<^verbatim>\<open>is_running\<close>. \<open>dispatch\<close> is the body
  of one iteration: an empty queue (\<^verbatim>\<open>queue.Empty\<close> after the timeout) does nothing,
  otherwise the oldest event is taken and handled. The first argument of
  \<open>process_events\<close> bounds the number of iterations looked at.
\<close>

definition dispatch :: "DeviceController \<Rightarrow> exn + DeviceController" where
  "dispatch c =
     (case get (event_queue c) of
        None \<Rightarrow> Inr c
      | Some (event, q) \<Rightarrow> handle_event event (c\<lparr>event_queue := q\<rparr>))"

fun process_events :: "nat \<Rightarrow> DeviceController \<Rightarrow> exn + DeviceController" where
  "process_events 0 c = Inr c"
| "process_events (Suc n) c =
     (if is_running c then
        case dispatch c of
          Inl e \<Rightarrow> Inl e
        | Inr c1 \<Rightarrow> process_events n c1
      else Inr c)"

text \<open>
  The threads of the program, one atomic step each. A key press reaches
  \<^verbatim>\<open>llm.on_press\<close>; the worker, once \<^verbatim>\<open>input_ready\<close> is set, runs the body of its cycle
  and starts the next iteration (\<^verbatim>\<open>input_counter = 0\<close>), and sleeps otherwise; the
  encoder reports a step count to \<^verbatim>\<open>rotary.rotation_detected\<close>, or the dial's own
  loop polls it with no new reading; the controller runs one iteration of its loop. A schedule is a list of such steps, and an exception that
  leaves \<^verbatim>\<open>process_events\<close> ends the program. The steps of one thread are taken
  as atomic, and a key press is delivered wherever the schedule has it (the program
  listens for keys only while the worker waits for \<^verbatim>\<open>input_ready\<close>).
\<close>

definition key_pressed :: "key \<Rightarrow> DeviceController \<Rightarrow> DeviceController" where
  "key_pressed k c =
     (let (l, q) = on_press k (llm c) (event_queue c) in c\<lparr>llm := l, event_queue := q\<rparr>)"

definition worker_cycle :: "env \<Rightarrow> DeviceController \<Rightarrow> DeviceController" where
  "worker_cycle ev c =
     (if input_ready (llm c) then
        let (l, q) = run_body ev (llm c) (event_queue c)
        in c\<lparr>llm := l\<lparr>input_counter := 0\<rparr>, event_queue := q\<rparr>
      else c)"

definition dial_turned :: "int \<Rightarrow> DeviceController \<Rightarrow> DeviceController" where
  "dial_turned n c =
     (let (r, q) = turn n (rotary c, event_queue c) in c\<lparr>rotary := r, event_queue := q\<rparr>)"

definition dial_polled :: "DeviceController \<Rightarrow> DeviceController" where
  "dial_polled c =
     (let (r, q) = rotary_run (rotary c) (event_queue c) in c\<lparr>rotary := r, event_queue := q\<rparr>)"

datatype thread_step = Key_press key | Worker_cycle env | Dial_turn int | Dial_poll | Dispatch

fun run_schedule :: "thread_step list \<Rightarrow> DeviceController \<Rightarrow> exn + DeviceController" where
  "run_schedule [] c = Inr c"
| "run_schedule (Key_press k # ts) c = run_schedule ts (key_pressed k c)"
| "run_schedule (Worker_cycle ev # ts) c = run_schedule ts (worker_cycle ev c)"
| "run_schedule (Dial_turn n # ts) c = run_schedule ts (dial_turned n c)"
| "run_schedule (Dial_poll # ts) c = run_schedule ts (dial_polled c)"
| "run_schedule (Dispatch # ts) c =
     (case dispatch c of Inl e \<Rightarrow> Inl e | Inr c1 \<Rightarrow> run_schedule ts c1)"

section \<open>The dial\<close>

subsection \<open>Ticks while inactive\<close>

text \<open>
  When \<^verbatim>\<open>is_running\<close> is false, a call of \<^verbatim>\<open>rotation_detected\<close> changes no field of
  the dial and leaves the event queue as it was. The reading itself stays on the encoder:
  \<^verbatim>\<open>encoder.steps\<close> is reset only inside the guarded branch.
\<close>

lemma rotation_detected_inactive:
  "rot_is_running r = False \<Longrightarrow>
   rotation_detected r q = (r, q) \<and> turn n (r, q) = (r\<lparr>steps := n\<rparr>, q)"
  by (simp add: rotation_detected_def)

subsection \<open>One completed turn\<close>

text \<open>
  What one completed turn does to an active dial, in either direction: the count moves by
  one; when it lands on a multiple of 3 the progress advances and \<^verbatim>\<open>BAR_UPDATE\<close> is put,
  and when the advanced progress reaches 6 (it was 5) \<^verbatim>\<open>BAR_FULL\<close> follows, the
  counters are reset and the dial stops itself.
\<close>

lemma turns_append: "turns (xs @ ys) rq = turns ys (turns xs rq)"
  by (induction xs arbitrary: rq) simp_all

lemma turn_clockwise:
  "rot_is_running r \<Longrightarrow> CPR \<le> n \<Longrightarrow>
   turn n (r, q) =
     (if (rotation_count r + 1) mod 3 = 0 then
        if 5 \<le> loading_progress r then
          (r\<lparr>steps := 0, rotation_count := 0, rotations_met := True, loading_progress := - 1,
             rot_is_running := False\<rparr>,
           q @ [Event BAR_UPDATE (PyInt (loading_progress r + 1)), Event BAR_FULL PyNone])
        else
          (r\<lparr>steps := 0, rotation_count := rotation_count r + 1, rotations_met := True,
             loading_progress := loading_progress r + 1\<rparr>,
           q @ [Event BAR_UPDATE (PyInt (loading_progress r + 1))])
      else (r\<lparr>steps := 0, rotation_count := rotation_count r + 1, rotations_met := False\<rparr>, q))"
  by (simp add: rotation_detected_def CPR_def put_def rotary_stop_def Let_def)

lemma turn_counterclockwise:
  "rot_is_running r \<Longrightarrow> n \<le> - CPR \<Longrightarrow>
   turn n (r, q) =
     (if (rotation_count r - 1) mod 3 = 0 then
        if 5 \<le> loading_progress r then
          (r\<lparr>steps := 0, rotation_count := 0, rotations_met := True, loading_progress := - 1,
             rot_is_running := False\<rparr>,
           q @ [Event BAR_UPDATE (PyInt (loading_progress r + 1)), Event BAR_FULL PyNone])
        else
          (r\<lparr>steps := 0, rotation_count := rotation_count r - 1, rotations_met := True,
             loading_progress := loading_progress r + 1\<rparr>,
           q @ [Event BAR_UPDATE (PyInt (loading_progress r + 1))])
      else (r\<lparr>steps := 0, rotation_count := rotation_count r - 1, rotations_met := False\<rparr>, q))"
  by (simp add: rotation_detected_def CPR_def put_def rotary_stop_def Let_def)

declare turn.simps [simp del]

lemma Suc_div3_hit: "Suc k mod 3 = 0 \<Longrightarrow> Suc k div 3 = Suc (k div 3)"
  by presburger

lemma Suc_div3_miss: "Suc k mod 3 \<noteq> 0 \<Longrightarrow> Suc k div 3 = k div 3"
  by presburger

lemma int_Suc_mod3: "((int k + 1) mod 3 = 0) = (Suc k mod 3 = 0)"
  by presburger

lemma clockwise_turns_below_full:
  "\<forall>n\<in>set ns. CPR \<le> n \<Longrightarrow> length ns \<le> 20 \<Longrightarrow>
   turns ns (armed, []) =
     (\<lparr>rot_is_running = True, steps = 0, rotation_count = int (length ns),
       loading_progress = int (length ns div 3) - 1,
       rotations_met = (ns \<noteq> [] \<and> length ns mod 3 = 0)\<rparr>,
      map (\<lambda>i. Event BAR_UPDATE (PyInt (int i))) [0..<length ns div 3])"
proof (induction ns rule: rev_induct)
  case Nil
  show ?case by (simp add: rotary_init_def)
next
  case (snoc n ns)
  have prev: "turns ns (armed, []) =
     (\<lparr>rot_is_running = True, steps = 0, rotation_count = int (length ns),
       loading_progress = int (length ns div 3) - 1,
       rotations_met = (ns \<noteq> [] \<and> length ns mod 3 = 0)\<rparr>,
      map (\<lambda>i. Event BAR_UPDATE (PyInt (int i))) [0..<length ns div 3])"
    using snoc by simp
  have n: "CPR \<le> n" using snoc.prems by simp
  have small: "length ns div 3 \<le> 6" "Suc (length ns) \<le> 20" using snoc.prems by simp_all
  show ?case
  proof (cases "Suc (length ns) mod 3 = 0")
    case True
    then have d: "Suc (length ns) div 3 = Suc (length ns div 3)" by (rule Suc_div3_hit)
    have lt: "length ns div 3 < 6" using small True by presburger
    show ?thesis
      using True lt by (simp add: turns_append prev turn_clockwise [OF _ n] int_Suc_mod3 d)
  next
    case False
    then have d: "Suc (length ns) div 3 = length ns div 3" by (rule Suc_div3_miss)
    show ?thesis
      using False by (simp add: turns_append prev turn_clockwise [OF _ n] int_Suc_mod3 d)
  qed
qed

subsection \<open>Clockwise turns from the armed dial\<close>

text \<open>
  C3, as the code has it. From the armed dial (count 0, progress \<open>-1\<close>, active) and an
  empty queue, three completed clockwise turns put exactly one \<^verbatim>\<open>BAR_UPDATE\<close> carrying 0.
  Eighteen put exactly six, carrying 0 to 5, and nothing else: the count is 18, the
  progress 5 and the dial still active. \<^verbatim>\<open>BAR_FULL\<close> needs the progress to reach 6, which
  is the twenty-first turn: seven \<^verbatim>\<open>BAR_UPDATE\<close> events carrying 0 to 6, then one
  \<^verbatim>\<open>BAR_FULL\<close>, after which the count is 0, the progress \<open>-1\<close> and the dial inactive.
\<close>

theorem clockwise_rotations_schedule:
  "\<forall>n\<in>set ns. CPR \<le> n \<Longrightarrow>
   (length ns = 3 \<longrightarrow>
      turns ns (armed, []) =
        (armed\<lparr>rotation_count := 3, loading_progress := 0, rotations_met := True\<rparr>,
         [Event BAR_UPDATE (PyInt 0)])) \<and>
   (length ns = 18 \<longrightarrow>
      turns ns (armed, []) =
        (armed\<lparr>rotation_count := 18, loading_progress := 5, rotations_met := True\<rparr>,
         map (\<lambda>i. Event BAR_UPDATE (PyInt i)) [0, 1, 2, 3, 4, 5])) \<and>
   (length ns = 21 \<longrightarrow>
      turns ns (armed, []) =
        (rotary_init\<lparr>rotations_met := True\<rparr>,
         map (\<lambda>i. Event BAR_UPDATE (PyInt i)) [0, 1, 2, 3, 4, 5, 6] @ [Event BAR_FULL PyNone]))"
proof (intro conjI impI)
  assume all: "\<forall>n\<in>set ns. CPR \<le> n" and len: "length ns = 3"
  show "turns ns (armed, []) =
        (armed\<lparr>rotation_count := 3, loading_progress := 0, rotations_met := True\<rparr>,
         [Event BAR_UPDATE (PyInt 0)])"
    using clockwise_turns_below_full [OF all] len by (auto simp: rotary_init_def upt_rec)
next
  assume all: "\<forall>n\<in>set ns. CPR \<le> n" and len: "length ns = 18"
  have "[0..<6] = [0, 1, 2, 3, 4, 5::nat]" by (simp add: upt_rec)
  then show "turns ns (armed, []) =
        (armed\<lparr>rotation_count := 18, loading_progress := 5, rotations_met := True\<rparr>,
         map (\<lambda>i. Event BAR_UPDATE (PyInt i)) [0, 1, 2, 3, 4, 5])"
    using clockwise_turns_below_full [OF all] len by (auto simp: rotary_init_def)
next
  assume all: "\<forall>n\<in>set ns. CPR \<le> n" and len: "length ns = 21"
  then have ne: "ns \<noteq> []" by auto
  define ms where "ms = butlast ns"
  have ns: "ns = ms @ [last ns]" using ne by (simp add: ms_def)
  have lms: "length ms = 20" using len by (simp add: ms_def)
  have allms: "\<forall>n\<in>set ms. CPR \<le> n" using all by (auto simp: ms_def dest: in_set_butlastD)
  have lastn: "CPR \<le> last ns" using all ne by simp
  have upt: "[0..<6] = [0, 1, 2, 3, 4, 5::nat]" by (simp add: upt_rec)
  have prev: "turns ms (armed, []) =
     (\<lparr>rot_is_running = True, steps = 0, rotation_count = 20, loading_progress = 5,
       rotations_met = False\<rparr>,
      map (\<lambda>i. Event BAR_UPDATE (PyInt i)) [0, 1, 2, 3, 4, 5])"
    using clockwise_turns_below_full [OF allms] lms upt by auto
  have "turns ns (armed, []) = turn (last ns) (turns ms (armed, []))"
    by (subst ns) (simp add: turns_append)
  also have "\<dots> =
     (\<lparr>rot_is_running = False, steps = 0, rotation_count = 0, loading_progress = - 1,
       rotations_met = True\<rparr>,
      map (\<lambda>i. Event BAR_UPDATE (PyInt i)) [0, 1, 2, 3, 4, 5, 6] @ [Event BAR_FULL PyNone])"
    unfolding prev by (simp add: turn_clockwise [OF _ lastn])
  finally show "turns ns (armed, []) =
        (rotary_init\<lparr>rotations_met := True\<rparr>,
         map (\<lambda>i. Event BAR_UPDATE (PyInt i)) [0, 1, 2, 3, 4, 5, 6] @ [Event BAR_FULL PyNone])"
    by (simp add: rotary_init_def)
qed

text \<open>The schedule at encoder readings of exactly \<open>CPR\<close>.\<close>

theorem clockwise_rotations_schedule_witness:
  "CPR \<le> CPR \<and> length (replicate 3 CPR) = 3 \<and> length (replicate 18 CPR) = 18 \<and>
   length (replicate 21 CPR) = 21 \<and>
   turns (replicate 3 CPR) (armed, []) =
     (armed\<lparr>rotation_count := 3, loading_progress := 0, rotations_met := True\<rparr>,
      [Event BAR_UPDATE (PyInt 0)]) \<and>
   turns (replicate 18 CPR) (armed, []) =
     (armed\<lparr>rotation_count := 18, loading_progress := 5, rotations_met := True\<rparr>,
      map (\<lambda>i. Event BAR_UPDATE (PyInt i)) [0, 1, 2, 3, 4, 5]) \<and>
   turns (replicate 21 CPR) (armed, []) =
     (rotary_init\<lparr>rotations_met := True\<rparr>,
      map (\<lambda>i. Event BAR_UPDATE (PyInt i)) [0, 1, 2, 3, 4, 5, 6] @ [Event BAR_FULL PyNone])"
  using clockwise_rotations_schedule [of "replicate 3 CPR"]
    clockwise_rotations_schedule [of "replicate 18 CPR"]
    clockwise_rotations_schedule [of "replicate 21 CPR"]
  by simp

text \<open>
  C3 as stated fails: after eighteen clockwise turns no \<^verbatim>\<open>BAR_FULL\<close> is in the queue,
  the dial is still active, the count is 18 and the progress 5.
\<close>

theorem eighteen_rotations_not_complete:
  "Event BAR_FULL PyNone \<notin> set (snd (turns (replicate 18 CPR) (armed, []))) \<and>
   rot_is_running (fst (turns (replicate 18 CPR) (armed, []))) \<and>
   rotation_count (fst (turns (replicate 18 CPR) (armed, []))) = 18 \<and>
   loading_progress (fst (turns (replicate 18 CPR) (armed, []))) = 5"
proof -
  have "\<forall>n\<in>set (replicate 18 CPR). CPR \<le> n" by simp
  from clockwise_turns_below_full [OF this] show ?thesis by auto
qed

subsection \<open>Counterclockwise turns\<close>

text \<open>
  C10. With the dial active and the count a multiple of 3, three completed
  counterclockwise turns take the count down by 3, to a multiple of 3 again, and while the
  progress is below 5 they advance it by one and put one \<^verbatim>\<open>BAR_UPDATE\<close> carrying the
  new progress, as the three clockwise turns with the opposite readings do (whose count
  goes up by 3). At any progress the two directions put the same events and end with the
  same progress and the same activity.
\<close>

theorem counterclockwise_rotations_charge:
  "rot_is_running r \<Longrightarrow> rotation_count r mod 3 = 0 \<Longrightarrow>
   a \<le> - CPR \<Longrightarrow> b \<le> - CPR \<Longrightarrow> c \<le> - CPR \<Longrightarrow>
   (loading_progress r < 5 \<longrightarrow>
      turns [a, b, c] (r, q) =
        (r\<lparr>steps := 0, rotation_count := rotation_count r - 3, rotations_met := True,
           loading_progress := loading_progress r + 1\<rparr>,
         q @ [Event BAR_UPDATE (PyInt (loading_progress r + 1))]) \<and>
      turns [- a, - b, - c] (r, q) =
        (r\<lparr>steps := 0, rotation_count := rotation_count r + 3, rotations_met := True,
           loading_progress := loading_progress r + 1\<rparr>,
         q @ [Event BAR_UPDATE (PyInt (loading_progress r + 1))])) \<and>
   (rotation_count r - 3) mod 3 = 0 \<and>
   snd (turns [a, b, c] (r, q)) = snd (turns [- a, - b, - c] (r, q)) \<and>
   loading_progress (fst (turns [a, b, c] (r, q))) = loading_progress (fst (turns [- a, - b, - c] (r, q))) \<and>
   rot_is_running (fst (turns [a, b, c] (r, q))) = rot_is_running (fst (turns [- a, - b, - c] (r, q)))"
proof -
  assume run: "rot_is_running r" and m: "rotation_count r mod 3 = 0"
    and a: "a \<le> - CPR" and b: "b \<le> - CPR" and c: "c \<le> - CPR"
  have a': "CPR \<le> - a" and b': "CPR \<le> - b" and c': "CPR \<le> - c" using a b c by simp_all
  have m1: "(rotation_count r - 1) mod 3 \<noteq> 0" "(rotation_count r - 1 - 1) mod 3 \<noteq> 0"
    "(rotation_count r - 1 - 1 - 1) mod 3 = 0" "(rotation_count r - 3) mod 3 = 0"
    using m by presburger+
  have p1: "(rotation_count r + 1) mod 3 \<noteq> 0" "(rotation_count r + 1 + 1) mod 3 \<noteq> 0"
    "(rotation_count r + 1 + 1 + 1) mod 3 = 0"
    using m by presburger+
  have ccw: "turns [a, b, c] (r, q) =
     (if 5 \<le> loading_progress r then
        (r\<lparr>steps := 0, rotation_count := 0, rotations_met := True, loading_progress := - 1,
           rot_is_running := False\<rparr>,
         q @ [Event BAR_UPDATE (PyInt (loading_progress r + 1)), Event BAR_FULL PyNone])
      else
        (r\<lparr>steps := 0, rotation_count := rotation_count r - 3, rotations_met := True,
           loading_progress := loading_progress r + 1\<rparr>,
         q @ [Event BAR_UPDATE (PyInt (loading_progress r + 1))]))"
    using run m1 by (simp add: turn_counterclockwise [OF _ a] turn_counterclockwise [OF _ b]
        turn_counterclockwise [OF _ c])
  have cw: "turns [- a, - b, - c] (r, q) =
     (if 5 \<le> loading_progress r then
        (r\<lparr>steps := 0, rotation_count := 0, rotations_met := True, loading_progress := - 1,
           rot_is_running := False\<rparr>,
         q @ [Event BAR_UPDATE (PyInt (loading_progress r + 1)), Event BAR_FULL PyNone])
      else
        (r\<lparr>steps := 0, rotation_count := rotation_count r + 3, rotations_met := True,
           loading_progress := loading_progress r + 1\<rparr>,
         q @ [Event BAR_UPDATE (PyInt (loading_progress r + 1))]))"
    using run p1 by (simp add: turn_clockwise [OF _ a'] turn_clockwise [OF _ b']
        turn_clockwise [OF _ c'])
  show ?thesis
    unfolding ccw cw using m1(4) by simp
qed

theorem counterclockwise_rotations_charge_witness:
  "rot_is_running armed \<and> rotation_count armed mod 3 = 0 \<and> - CPR \<le> - CPR \<and>
   loading_progress armed < 5 \<and>
   turns [- CPR, - CPR, - CPR] (armed, []) =
     (armed\<lparr>rotation_count := - 3, loading_progress := 0, rotations_met := True\<rparr>,
      [Event BAR_UPDATE (PyInt 0)]) \<and>
   snd (turns [- CPR, - CPR, - CPR] (armed, [])) = snd (turns [CPR, CPR, CPR] (armed, []))"
  using counterclockwise_rotations_charge [of armed "- CPR" "- CPR" "- CPR" "[]"]
  by (simp add: rotary_init_def)

section \<open>Key capture\<close>

subsection \<open>Enter: the queue jump\<close>

text \<open>
  C2. Whatever the event queue holds, clearing it and then putting an event \<open>e\<close> leaves
  exactly \<open>e\<close>: the next \<^verbatim>\<open>get\<close> returns \<open>e\<close> and the queue is then empty, so nothing
  queued before survives and the event put is not lost. \<^verbatim>\<open>on_press\<close> on the enter key
  does this with \<^verbatim>\<open>INPUTSENT\<close>, from any state of the worker (its reset of
  \<^verbatim>\<open>key_count\<close> keeps the test that follows from putting a \<^verbatim>\<open>KEYBOARDINPUT\<close>).
\<close>

theorem enter_clears_then_pushes:
  "snd (on_press Key_enter l q) = [Event INPUTSENT PyNone] \<and>
   get (snd (on_press Key_enter l q)) = Some (Event INPUTSENT PyNone, []) \<and>
   put (clear q) e = [e] \<and>
   get (put (clear q) e) = Some (e, [])"
  by (simp add: on_press_def put_def clear_def get_def)

subsection \<open>Backspace\<close>

text \<open>
  C6. Backspace removes exactly the last character of \<^verbatim>\<open>user_input\<close>, and on the empty
  buffer leaves it empty. The call returns normally in both cases (\<^verbatim>\<open>on_press\<close> has no
  failing branch), and apart from the buffer it does what every counted keystroke does:
  one more on \<^verbatim>\<open>key_count\<close> and, at 3, a \<^verbatim>\<open>KEYBOARDINPUT\<close> event with the counters
  moved; every other field of the worker is as before.
\<close>

theorem backspace_buffer:
  "user_input (fst (on_press Key_backspace l q)) = butlast (user_input l) \<and>
   user_input (fst (on_press Key_backspace (l\<lparr>user_input := []\<rparr>) q)) = [] \<and>
   user_input (fst (on_press Key_backspace (l\<lparr>user_input := s @ [ch]\<rparr>) q)) = s \<and>
   on_press Key_backspace l q =
     (if 3 \<le> key_count l + 1 then
        (l\<lparr>user_input := butlast (user_input l), key_count := 0,
           input_counter := input_counter l + 1\<rparr>,
         q @ [Event KEYBOARDINPUT PyNone])
      else (l\<lparr>user_input := butlast (user_input l), key_count := key_count l + 1\<rparr>, q))"
  by (simp add: on_press_def put_def)

subsection \<open>Counting keystrokes\<close>

text \<open>
  A counted keystroke moves \<^verbatim>\<open>key_count\<close> round 0, 1, 2 and puts one
  \<^verbatim>\<open>KEYBOARDINPUT\<close> each time it passes 3.
\<close>

lemma on_press_accepted:
  "accepted k \<Longrightarrow> 0 \<le> key_count l \<Longrightarrow> key_count l \<le> 2 \<Longrightarrow>
   key_count (fst (on_press k l q)) = (key_count l + 1) mod 3 \<and>
   snd (on_press k l q) = q @ replicate (nat ((key_count l + 1) div 3)) (Event KEYBOARDINPUT PyNone)"
  by (cases k) (auto simp: accepted_def on_press_def put_def Let_def split: option.splits)

lemma capture_accepted:
  "\<forall>k\<in>set ks. accepted k \<Longrightarrow> 0 \<le> key_count l \<Longrightarrow> key_count l \<le> 2 \<Longrightarrow>
   key_count (fst (capture ks (l, q))) = (key_count l + int (length ks)) mod 3 \<and>
   snd (capture ks (l, q)) =
     q @ replicate (nat ((key_count l + int (length ks)) div 3)) (Event KEYBOARDINPUT PyNone)"
proof (induction ks arbitrary: l q)
  case Nil
  then show ?case by simp
next
  case (Cons k ks)
  obtain l1 q1 where s: "on_press k l q = (l1, q1)" by (cases "on_press k l q")
  have acc: "accepted k" using Cons.prems by simp
  from on_press_accepted [OF acc Cons.prems(2,3), of q] s
  have k1: "key_count l1 = (key_count l + 1) mod 3"
    and q1: "q1 = q @ replicate (nat ((key_count l + 1) div 3)) (Event KEYBOARDINPUT PyNone)"
    by simp_all
  have r: "0 \<le> key_count l1" "key_count l1 \<le> 2" using k1 by simp_all
  have rest: "\<forall>k\<in>set ks. accepted k" using Cons.prems by simp
  note ih = Cons.IH [OF rest r, of q1]
  have m: "((key_count l + 1) mod 3 + int (length ks)) mod 3 = (key_count l + (1 + int (length ks))) mod 3"
    by presburger
  have e: "(x + 1) div 3 + ((x + 1) mod 3 + n) div 3 = (x + (1 + n)) div 3" for x n :: int
    by presburger
  have "0 \<le> (key_count l + 1) div 3" "0 \<le> ((key_count l + 1) mod 3 + int (length ks)) div 3"
    using Cons.prems(2) by (simp_all add: pos_imp_zdiv_nonneg_iff)
  then have d: "nat ((key_count l + 1) div 3) + nat (((key_count l + 1) mod 3 + int (length ks)) div 3)
      = nat ((key_count l + (1 + int (length ks))) div 3)"
    using e [of "key_count l" "int (length ks)"] by (simp add: nat_add_distrib [symmetric])
  show ?case
    using ih by (simp add: s k1 q1 m replicate_add [symmetric] d)
qed

text \<open>
  C4, as the code has it. \<^verbatim>\<open>KEYBOARDINPUT\<close> is put whenever \<^verbatim>\<open>key_count\<close> reaches 3,
  and the count then restarts at 0. For a sequence of \<open>n\<close> counted keystrokes
  (characters, spaces, backspaces) from a state whose \<^verbatim>\<open>key_count\<close> is \<open>k\<close>, between 0
  and 2, exactly \<open>(k + n) div 3\<close> events are put, and nothing else. \<^verbatim>\<open>__init__\<close> sets
  \<^verbatim>\<open>key_count\<close> to 2, so in the first capture the events number \<open>(n + 2) div 3\<close>: the
  first is put on the first keystroke. Enter resets \<^verbatim>\<open>key_count\<close> to 0, so after it they
  number \<open>n div 3\<close>, one per completed group of three.
\<close>

theorem keyboard_progress_count:
  "\<forall>k\<in>set ks. accepted k \<Longrightarrow> 0 \<le> key_count l \<Longrightarrow> key_count l \<le> 2 \<Longrightarrow>
   snd (capture ks (l, q)) =
     q @ replicate (nat ((key_count l + int (length ks)) div 3)) (Event KEYBOARDINPUT PyNone) \<and>
   key_count (fst (capture ks (l, q))) = (key_count l + int (length ks)) mod 3 \<and>
   snd (capture ks (llm_init, q)) =
     q @ replicate ((length ks + 2) div 3) (Event KEYBOARDINPUT PyNone) \<and>
   snd (capture ks (on_press Key_enter l q)) =
     Event INPUTSENT PyNone # replicate (length ks div 3) (Event KEYBOARDINPUT PyNone)"
proof -
  assume acc: "\<forall>k\<in>set ks. accepted k" and lo: "0 \<le> key_count l" and hi: "key_count l \<le> 2"
  have init: "snd (capture ks (llm_init, q)) =
     q @ replicate ((length ks + 2) div 3) (Event KEYBOARDINPUT PyNone)"
  proof -
    have "nat ((2 + int (length ks)) div 3) = (length ks + 2) div 3" by linarith
    then show ?thesis
      using capture_accepted [OF acc, of llm_init q] by (simp add: llm_init_def)
  qed
  obtain l1 where e: "on_press Key_enter l q = (l1, [Event INPUTSENT PyNone])" and k: "key_count l1 = 0"
    by (simp add: on_press_def put_def clear_def)
  have "nat (int (length ks) div 3) = length ks div 3" by linarith
  then have enter: "snd (capture ks (on_press Key_enter l q)) =
     Event INPUTSENT PyNone # replicate (length ks div 3) (Event KEYBOARDINPUT PyNone)"
    using capture_accepted [OF acc, of l1 "[Event INPUTSENT PyNone]"] k by (simp add: e)
  show ?thesis
    using capture_accepted [OF acc lo hi, of q] init enter by simp
qed

text \<open>Four counted keystrokes, in the first capture and after an enter.\<close>

theorem keyboard_progress_count_witness:
  "accepted (KeyCode (Some ''h'')) \<and> accepted Key_space \<and> accepted Key_backspace \<and>
   accepted (KeyCode (Some ''i'')) \<and>
   0 \<le> key_count llm_init \<and> key_count llm_init \<le> 2 \<and>
   snd (capture [KeyCode (Some ''h''), Key_space, Key_backspace, KeyCode (Some ''i'')] (llm_init, [])) =
     [Event KEYBOARDINPUT PyNone, Event KEYBOARDINPUT PyNone] \<and>
   snd (capture [KeyCode (Some ''h''), Key_space, Key_backspace, KeyCode (Some ''i'')]
          (on_press Key_enter llm_init [])) =
     [Event INPUTSENT PyNone, Event KEYBOARDINPUT PyNone]"
  using keyboard_progress_count
    [of "[KeyCode (Some ''h''), Key_space, Key_backspace, KeyCode (Some ''i'')]" llm_init "[]"]
  by (simp add: accepted_def llm_init_def numeral_2_eq_2)

text \<open>
  C4 as stated fails: in the first capture one counted keystroke already puts a
  \<^verbatim>\<open>KEYBOARDINPUT\<close> event.
\<close>

theorem first_keystroke_pushes_keyboardinput:
  "accepted (KeyCode (Some ''a'')) \<and>
   snd (on_press (KeyCode (Some ''a'')) llm_init []) = [Event KEYBOARDINPUT PyNone]"
  by (simp add: accepted_def on_press_def llm_init_def put_def)

section \<open>The worker cycle when the model call fails\<close>

text \<open>
  For comparison, the cycle in which the model call returns and the log is written: the
  conversation gains the user entry and the assistant entry, \<^verbatim>\<open>llm_output_ready\<close> is
  set, the buffer and \<^verbatim>\<open>input_ready\<close> are reset, and \<^verbatim>\<open>LLM_RESPONSE\<close> carries the
  response object.
\<close>

lemma run_body_chat_returns:
  "chat ev (messages l @ [(user, user_input l)]) = Inr t \<Longrightarrow> log_error ev = None \<Longrightarrow>
   run_body ev l q =
     (l\<lparr>messages := messages l @ [(user, user_input l), (assistant, t)],
        response := Some (PyChatResponse t), llm_output_ready := True, user_input := [],
        input_ready := False\<rparr>,
      q @ [Event LLM_RESPONSE (PyChatResponse t)])"
  by (simp add: run_body_def get_llm_response_def message_content_def put_def)

text \<open>
  C7, on the code. In a cycle whose model call raises, \<^verbatim>\<open>get_llm_response\<close> returns the
  string \<^verbatim>\<open>"Error: ..."\<close> in place of a response object; \<^verbatim>\<open>run\<close> then reads
  \<^verbatim>\<open>.message.content\<close> of that string, which raises \<^verbatim>\<open>AttributeError\<close>, and the handler
  of \<^verbatim>\<open>run\<close> puts an \<^verbatim>\<open>LLM_RESPONSE\<close> event carrying the error text. The worker goes on
  and the event is put, but the conversation has gained the user entry only: no assistant
  entry is appended, and \<^verbatim>\<open>llm_output_ready\<close>, the buffer and \<^verbatim>\<open>input_ready\<close> are left
  as they were.
\<close>

theorem run_body_chat_raises:
  "chat ev (messages l @ [(user, user_input l)]) = Inl e \<Longrightarrow>
   run_body ev l q =
     (l\<lparr>messages := messages l @ [(user, user_input l)],
        response := Some (PyStr (''Error: '' @ e))\<rparr>,
      q @ [Event LLM_RESPONSE (PyStr (''Error: '' @ str_exn (no_attribute ''str'' ''message'')))])"
  by (simp add: run_body_def get_llm_response_def message_content_def put_def str_exn_def)

text \<open>A cycle on the input \<^verbatim>\<open>hi\<close> whose model call raises \<^verbatim>\<open>connection refused\<close>.\<close>

theorem run_body_chat_raises_witness:
  "chat \<lparr>chat = (\<lambda>m. Inl ''connection refused''), log_error = None\<rparr>
     (messages (llm_init\<lparr>user_input := ''hi'', input_ready := True\<rparr>) @
        [(user, user_input (llm_init\<lparr>user_input := ''hi'', input_ready := True\<rparr>))])
     = Inl ''connection refused'' \<and>
   run_body \<lparr>chat = (\<lambda>m. Inl ''connection refused''), log_error = None\<rparr>
     (llm_init\<lparr>user_input := ''hi'', input_ready := True\<rparr>) [] =
     (llm_init\<lparr>user_input := ''hi'', input_ready := True,
        messages := [system_prompt, (user, ''hi'')],
        response := Some (PyStr ''Error: connection refused'')\<rparr>,
      [Event LLM_RESPONSE (PyStr (''Error: '' @ str_exn (no_attribute ''str'' ''message'')))])"
  using run_body_chat_raises
    [of "\<lparr>chat = (\<lambda>m. Inl ''connection refused''), log_error = None\<rparr>"
        "llm_init\<lparr>user_input := ''hi'', input_ready := True\<rparr>" "''connection refused''" "[]"]
  by (simp add: llm_init_def)

section \<open>The controller's dispatch\<close>

text \<open>The definitions that a concrete run of the threads unfolds.\<close>

lemmas step_defs =
  key_pressed_def worker_cycle_def dial_turned_def dispatch_def handle_event_def
  check_display_response_def response_message_content_def message_content_def
  on_press_def run_body_def get_llm_response_def turn.simps rotation_detected_def
  put_def get_def clear_def CPR_def num_bars_def
  loadingbar_def display_user_input_def prtext_def display_response_def update_loading_bar_def
  rotary_stop_def str_exn_def

lemmas init_defs = controller_init_def rotary_init_def display_init_def llm_init_def

subsection \<open>The loading-bar unit\<close>

text \<open>
  What \<^verbatim>\<open>handle_event\<close> does on \<^verbatim>\<open>BAR_UPDATE\<close>: it calls \<^verbatim>\<open>update_loading_bar\<close>
  with the dial's \<^verbatim>\<open>loading_progress\<close> as it is at dispatch time, whatever unit the
  event carries.
\<close>

lemma handle_event_bar_update:
  "handle_event (Event BAR_UPDATE d) c =
     Inr (c\<lparr>display := update_loading_bar (loading_progress (rotary c)) (display c)\<rparr>)"
  by (simp add: handle_event_def)

text \<open>
  C9, on the code. After the enter key and its dispatch the dial is armed; six clockwise
  turns put \<^verbatim>\<open>BAR_UPDATE\<close> carrying 0 and then \<^verbatim>\<open>BAR_UPDATE\<close> carrying 1 before the
  controller takes either. The dispatch of the first draws unit 1, the dial's progress by
  then, not the 0 the dial attached to it; the dispatch of the second draws unit 1 again.
  Unit 0 is never drawn.
\<close>

theorem bar_update_renders_later_progress:
  "run_schedule ([Key_press Key_enter, Dispatch] @ replicate 6 (Dial_turn CPR)) controller_init =
     Inr (controller_init\<lparr>
        event_queue := [Event BAR_UPDATE (PyInt 0), Event BAR_UPDATE (PyInt 1)],
        rotary := armed\<lparr>rotation_count := 6, loading_progress := 1, rotations_met := True\<rparr>,
        display := display_init\<lparr>panel := [Loadingbar, Display_user_input []]\<rparr>,
        llm := llm_init\<lparr>key_count := 0, input_ready := True\<rparr>\<rparr>) \<and>
   run_schedule ([Key_press Key_enter, Dispatch] @ replicate 6 (Dial_turn CPR) @ [Dispatch]) controller_init =
     Inr (controller_init\<lparr>
        event_queue := [Event BAR_UPDATE (PyInt 1)],
        rotary := armed\<lparr>rotation_count := 6, loading_progress := 1, rotations_met := True\<rparr>,
        display := display_init\<lparr>panel := [Loadingbar, Display_user_input [], Update_loading_bar 1],
          disp_loading_progress := 0\<rparr>,
        llm := llm_init\<lparr>key_count := 0, input_ready := True\<rparr>\<rparr>) \<and>
   run_schedule ([Key_press Key_enter, Dispatch] @ replicate 6 (Dial_turn CPR) @ [Dispatch, Dispatch])
     controller_init =
     Inr (controller_init\<lparr>
        rotary := armed\<lparr>rotation_count := 6, loading_progress := 1, rotations_met := True\<rparr>,
        display := display_init\<lparr>
          panel := [Loadingbar, Display_user_input [], Update_loading_bar 1, Update_loading_bar 1],
          disp_loading_progress := 1\<rparr>,
        llm := llm_init\<lparr>key_count := 0, input_ready := True\<rparr>\<rparr>)"
  by (simp add: step_defs init_defs numeral_eq_Suc)

subsection \<open>A turn made while the dial is inactive\<close>

text \<open>
  C5, on the code. At start-up the dial is inactive. One full clockwise turn made then
  changes neither counter and puts no event, but its reading stays on the encoder. The
  user presses enter and \<^verbatim>\<open>INPUTSENT\<close> is dispatched, which activates the dial; the next
  iteration of the dial's own loop, with no new reading, counts the turn made while
  inactive: \<^verbatim>\<open>rotation_count\<close> becomes 1.
\<close>

theorem inactive_turn_counted_after_activation:
  "run_schedule [Dial_turn CPR] controller_init =
     Inr (controller_init\<lparr>rotary := rotary_init\<lparr>steps := CPR\<rparr>\<rparr>) \<and>
   run_schedule [Dial_turn CPR, Key_press Key_enter, Dispatch] controller_init =
     Inr (controller_init\<lparr>
        rotary := armed\<lparr>steps := CPR\<rparr>,
        display := display_init\<lparr>panel := [Loadingbar, Display_user_input []]\<rparr>,
        llm := llm_init\<lparr>key_count := 0, input_ready := True\<rparr>\<rparr>) \<and>
   run_schedule [Dial_turn CPR, Key_press Key_enter, Dispatch, Dial_poll] controller_init =
     Inr (controller_init\<lparr>
        rotary := armed\<lparr>rotation_count := 1\<rparr>,
        display := display_init\<lparr>panel := [Loadingbar, Display_user_input []]\<rparr>,
        llm := llm_init\<lparr>key_count := 0, input_ready := True\<rparr>\<rparr>)"
  by (simp add: step_defs dial_polled_def rotary_run_def init_defs)

subsection \<open>Where render requests go\<close>

text \<open>
  What one dispatch does to the display: the private \<^verbatim>\<open>update_queue\<close> is untouched, and
  the requests of the event are drawn at the end of what was drawn before.
\<close>

lemma handle_event_panel:
  "handle_event e c = Inr c' \<Longrightarrow>
   update_queue (display c') = update_queue (display c) \<and>
   panel (display c') = panel (display c) @
     (case type e of
        KEYBOARDINPUT \<Rightarrow> [Display_user_input (user_input (llm c))]
      | INPUTSENT \<Rightarrow> [Loadingbar, Display_user_input (user_input (llm c))]
      | BAR_UPDATE \<Rightarrow>
          (if loading_progress (rotary c) < num_bars
           then [Update_loading_bar (loading_progress (rotary c))] else [])
      | BAR_FULL \<Rightarrow>
          (if llm_output_ready (llm c) then
             case response (llm c) of Some (PyChatResponse t) \<Rightarrow> [Display_response t] | _ \<Rightarrow> []
           else [])
      | LLM_RESPONSE \<Rightarrow>
          (if llm_output_ready (llm c) \<and> loading_bar_full c then
             case response (llm c) of Some (PyChatResponse t) \<Rightarrow> [Display_response t] | _ \<Rightarrow> []
           else [])
      | SHUTDOWN \<Rightarrow> []
      | DISPLAY_UPDATE \<Rightarrow> [])"
  by (cases "type e")
    (auto simp: handle_event_def check_display_response_def response_message_content_def
      message_content_def shutdown_def display_stop_def prtext_def display_user_input_def
      loadingbar_def update_loading_bar_def display_response_def Let_def
      split: if_splits option.splits pyval.splits)

lemma handle_event_extends_panel:
  "handle_event e c = Inr c' \<Longrightarrow>
   update_queue (display c') = update_queue (display c) \<and>
   (\<exists>rs. panel (display c') = panel (display c) @ rs)"
  using handle_event_panel [of e c c'] by blast

lemma dispatch_extends_panel:
  "dispatch c = Inr c' \<Longrightarrow>
   update_queue (display c') = update_queue (display c) \<and>
   (\<exists>rs. panel (display c') = panel (display c) @ rs)"
proof (cases "get (event_queue c)")
  case None
  assume "dispatch c = Inr c'"
  with None show ?thesis by (simp add: dispatch_def)
next
  case (Some eq)
  assume d: "dispatch c = Inr c'"
  obtain e q where eq: "eq = (e, q)" by (cases eq)
  from d Some eq have "handle_event e (c\<lparr>event_queue := q\<rparr>) = Inr c'"
    by (simp add: dispatch_def)
  from handle_event_extends_panel [OF this] show ?thesis by simp
qed

lemma process_events_extends_panel:
  "process_events n c = Inr c' \<Longrightarrow>
   update_queue (display c') = update_queue (display c) \<and>
   (\<exists>rs. panel (display c') = panel (display c) @ rs)"
proof (induction n arbitrary: c)
  case 0
  then show ?case by simp
next
  case (Suc n)
  show ?case
  proof (cases "is_running c")
    case False
    with Suc.prems show ?thesis by simp
  next
    case True
    with Suc.prems obtain c1 where d: "dispatch c = Inr c1" and p: "process_events n c1 = Inr c'"
      by (auto split: sum.splits)
    from dispatch_extends_panel [OF d] Suc.IH [OF p] show ?thesis by auto
  qed
qed

text \<open>
  C8, as the code has it. Every render request of the controller's dispatch is carried out
  inside \<^verbatim>\<open>handle_event\<close> itself, by calling the display's drawing methods: a dispatch
  that returns has appended exactly the requests of its event to what the panel showed
  (the user-input echo for \<^verbatim>\<open>KEYBOARDINPUT\<close>; the loading prompt, then the echo, for
  \<^verbatim>\<open>INPUTSENT\<close>; the loading-bar unit for \<^verbatim>\<open>BAR_UPDATE\<close> when it is below \<^verbatim>\<open>num_bars\<close>;
  the response when both readiness flags are set), one event at a time in dispatch order, so nothing
  drawn earlier is dropped or reordered. The dispatch never puts anything on the display's
  private \<^verbatim>\<open>update_queue\<close>: after any number of iterations of \<^verbatim>\<open>process_events\<close> it is
  as it was.
\<close>

theorem dispatch_renders_directly:
  "(handle_event e c = Inr c' \<longrightarrow>
      update_queue (display c') = update_queue (display c) \<and>
      panel (display c') = panel (display c) @
        (case type e of
           KEYBOARDINPUT \<Rightarrow> [Display_user_input (user_input (llm c))]
         | INPUTSENT \<Rightarrow> [Loadingbar, Display_user_input (user_input (llm c))]
         | BAR_UPDATE \<Rightarrow>
             (if loading_progress (rotary c) < num_bars
              then [Update_loading_bar (loading_progress (rotary c))] else [])
         | BAR_FULL \<Rightarrow>
             (if llm_output_ready (llm c) then
                case response (llm c) of Some (PyChatResponse t) \<Rightarrow> [Display_response t] | _ \<Rightarrow> []
              else [])
         | LLM_RESPONSE \<Rightarrow>
             (if llm_output_ready (llm c) \<and> loading_bar_full c then
                case response (llm c) of Some (PyChatResponse t) \<Rightarrow> [Display_response t] | _ \<Rightarrow> []
              else [])
         | SHUTDOWN \<Rightarrow> []
         | DISPLAY_UPDATE \<Rightarrow> [])) \<and>
   (process_events n d = Inr d' \<longrightarrow>
      update_queue (display d') = update_queue (display d) \<and>
      (\<exists>rs. panel (display d') = panel (display d) @ rs))"
  using handle_event_panel [of e c c'] process_events_extends_panel [of n d d'] by blast

text \<open>The dispatch of \<^verbatim>\<open>INPUTSENT\<close>, and two iterations of the loop, from the initial state.\<close>

theorem dispatch_renders_directly_witness:
  "handle_event (Event INPUTSENT PyNone) controller_init =
     Inr (controller_init\<lparr>rotary := armed,
            display := display_init\<lparr>panel := [Loadingbar, Display_user_input []]\<rparr>\<rparr>) \<and>
   update_queue (display (controller_init\<lparr>rotary := armed,
            display := display_init\<lparr>panel := [Loadingbar, Display_user_input []]\<rparr>\<rparr>)) =
     update_queue (display controller_init) \<and>
   process_events 2 (controller_init\<lparr>event_queue := [Event INPUTSENT PyNone, Event KEYBOARDINPUT PyNone]\<rparr>) =
     Inr (controller_init\<lparr>rotary := armed,
            display := display_init\<lparr>
              panel := [Loadingbar, Display_user_input [], Display_user_input []]\<rparr>\<rparr>) \<and>
   update_queue (display (controller_init\<lparr>rotary := armed,
            display := display_init\<lparr>
              panel := [Loadingbar, Display_user_input [], Display_user_input []]\<rparr>\<rparr>)) =
     update_queue (display (controller_init\<lparr>event_queue := [Event INPUTSENT PyNone, Event KEYBOARDINPUT PyNone]\<rparr>))"
proof -
  have h: "handle_event (Event INPUTSENT PyNone) controller_init =
     Inr (controller_init\<lparr>rotary := armed,
            display := display_init\<lparr>panel := [Loadingbar, Display_user_input []]\<rparr>\<rparr>)"
    by (simp add: step_defs init_defs)
  have p: "process_events 2 (controller_init\<lparr>event_queue := [Event INPUTSENT PyNone, Event KEYBOARDINPUT PyNone]\<rparr>) =
     Inr (controller_init\<lparr>rotary := armed,
            display := display_init\<lparr>
              panel := [Loadingbar, Display_user_input [], Display_user_input []]\<rparr>\<rparr>)"
    by (simp add: step_defs init_defs numeral_2_eq_2)
  from dispatch_renders_directly
    [of "Event INPUTSENT PyNone" controller_init
        "controller_init\<lparr>rotary := armed,
            display := display_init\<lparr>panel := [Loadingbar, Display_user_input []]\<rparr>\<rparr>"
        2 "controller_init\<lparr>event_queue := [Event INPUTSENT PyNone, Event KEYBOARDINPUT PyNone]\<rparr>"
        "controller_init\<lparr>rotary := armed,
            display := display_init\<lparr>
              panel := [Loadingbar, Display_user_input [], Display_user_input []]\<rparr>\<rparr>"]
    h p
  show ?thesis by blast
qed

text \<open>
  C8 as stated fails: after the enter key and the dispatch of its \<^verbatim>\<open>INPUTSENT\<close> the
  panel has been drawn on twice and the display's private queue has stayed empty.
\<close>

theorem renders_without_update_queue:
  "run_schedule [Key_press Key_enter, Dispatch] controller_init =
     Inr (controller_init\<lparr>rotary := armed,
            display := display_init\<lparr>panel := [Loadingbar, Display_user_input []]\<rparr>,
            llm := llm_init\<lparr>key_count := 0, input_ready := True\<rparr>\<rparr>) \<and>
   panel (display_init\<lparr>panel := [Loadingbar, Display_user_input []]\<rparr>) \<noteq> [] \<and>
   update_queue (display_init\<lparr>panel := [Loadingbar, Display_user_input []]\<rparr>) = []"
  by (simp add: step_defs init_defs)

subsection \<open>Showing the response\<close>

text \<open>
  \<^verbatim>\<open>check_display_response\<close> in full: with either flag false it does nothing; with both
  true it displays the content of the stored response once and clears both flags, if the
  stored value is a response object, and raises otherwise.
\<close>

lemma check_display_response_cases:
  "check_display_response c =
     (if llm_output_ready (llm c) \<and> loading_bar_full c then
        case response (llm c) of
          Some (PyChatResponse t) \<Rightarrow>
            Inr (c\<lparr>display := (display c)\<lparr>panel := panel (display c) @ [Display_response t]\<rparr>,
                   llm := (llm c)\<lparr>llm_output_ready := False\<rparr>,
                   loading_bar_full := False\<rparr>)
        | Some (PyStr s) \<Rightarrow> Inl (no_attribute ''str'' ''message'')
        | Some (PyInt i) \<Rightarrow> Inl (no_attribute ''int'' ''message'')
        | Some PyNone \<Rightarrow> Inl (no_attribute ''NoneType'' ''message'')
        | None \<Rightarrow> Inl (no_attribute ''LocalLLM'' ''response'')
      else Inr c)"
  by (simp add: check_display_response_def response_message_content_def message_content_def
      display_response_def split: option.splits pyval.splits)

text \<open>
  C1, on the code. A schedule of the threads from the initial state: the user submits
  \<^verbatim>\<open>hi\<close>, the model answers and \<^verbatim>\<open>LLM_RESPONSE\<close> is dispatched while the bar is not
  full, so \<^verbatim>\<open>llm_output_ready\<close> stays set; the user submits \<^verbatim>\<open>yo\<close>, the model call
  raises and the worker stores the error string as its response; the user then turns the
  dial twenty-one times. Before the last dispatch \<^verbatim>\<open>BAR_FULL\<close> is the only event queued and
  \<^verbatim>\<open>llm_output_ready\<close> is true. Its dispatch sets \<^verbatim>\<open>loading_bar_full\<close>, finds both flags
  true, and raises \<^verbatim>\<open>AttributeError\<close> on \<^verbatim>\<open>.message.content\<close> of the string:
  \<^verbatim>\<open>display_response\<close> is not called and the exception leaves \<^verbatim>\<open>process_events\<close>.
\<close>

theorem both_ready_error_string_raises:
  "run_schedule
     ([Key_press (KeyCode (Some ''h'')), Key_press (KeyCode (Some ''i'')), Key_press Key_enter,
       Dispatch,
       Worker_cycle \<lparr>chat = (\<lambda>m. Inr ''Art is joy in labour.''), log_error = None\<rparr>,
       Dispatch,
       Key_press (KeyCode (Some ''y'')), Key_press (KeyCode (Some ''o'')), Key_press Key_enter,
       Dispatch,
       Worker_cycle \<lparr>chat = (\<lambda>m. Inl ''connection refused''), log_error = None\<rparr>,
       Dispatch] @
      concat (replicate 7 (replicate 3 (Dial_turn CPR) @ [Dispatch])))
     controller_init =
     Inr (controller_init\<lparr>
        event_queue := [Event BAR_FULL PyNone],
        rotary := rotary_init\<lparr>rotations_met := True\<rparr>,
        display := display_init\<lparr>
          panel := [Loadingbar, Display_user_input ''hi'', Loadingbar, Display_user_input ''yo'',
                    Update_loading_bar 0, Update_loading_bar 1, Update_loading_bar 2,
                    Update_loading_bar 3, Update_loading_bar 4, Update_loading_bar 5,
                    Update_loading_bar (- 1)],
          disp_loading_progress := 6\<rparr>,
        llm := llm_init\<lparr>key_count := 0, input_ready := True, llm_output_ready := True,
          user_input := ''yo'',
          messages := [system_prompt, (user, ''hi''), (assistant, ''Art is joy in labour.''),
                       (user, ''yo'')],
          response := Some (PyStr ''Error: connection refused'')\<rparr>,
        loading_bar_full := False\<rparr>) \<and>
   run_schedule
     ([Key_press (KeyCode (Some ''h'')), Key_press (KeyCode (Some ''i'')), Key_press Key_enter,
       Dispatch,
       Worker_cycle \<lparr>chat = (\<lambda>m. Inr ''Art is joy in labour.''), log_error = None\<rparr>,
       Dispatch,
       Key_press (KeyCode (Some ''y'')), Key_press (KeyCode (Some ''o'')), Key_press Key_enter,
       Dispatch,
       Worker_cycle \<lparr>chat = (\<lambda>m. Inl ''connection refused''), log_error = None\<rparr>,
       Dispatch] @
      concat (replicate 7 (replicate 3 (Dial_turn CPR) @ [Dispatch])) @ [Dispatch])
     controller_init =
     Inl (no_attribute ''str'' ''message'')"
  by (simp add: step_defs init_defs numeral_eq_Suc)

end
